theory Spec2Isabelle
  imports Complex_Main
begin

section \<open>Data model of \<^verbatim>\<open>bubbles/gmsh_utils.py\<close>\<close>

text \<open>
  The named tuples of the module become records with the source's field names. Several
  of them have a field \<^verbatim>\<open>tag\<close>, so that field is always written with its record's
  name (\<open>Point.tag\<close>, \<open>Line.tag\<close>, ...). Tags and levels are Python integers
  (unbounded), hence \<open>int\<close>. Coordinates, \<^verbatim>\<open>z\<close> and \<^verbatim>\<open>lc\<close> are Python floats that the
  compiler only copies (no arithmetic is done on them); they are modelled as \<open>real\<close>,
  the literals \<^verbatim>\<open>0.0\<close> and \<^verbatim>\<open>0.1\<close> as \<open>0\<close> and \<open>0.1\<close>.
\<close>

datatype error = IndexError

record Point =
  x :: real
  y :: real
  z :: real
  lc :: real
  tag :: int

record Line =
  start_tag :: int
  end_tag :: int
  tag :: int

record CurveLoop =
  line_tags :: "int list"
  tag :: int

record PlaneSurface =
  curve_loop_tags :: "int list"
  tag :: int

record PhysicalGroup =
  dim :: int
  entity_tags :: "int list"
  tag :: int

text \<open>
  The dictionary \<^verbatim>\<open>GmshEntities\<close>, with the five keys that
  \<^verbatim>\<open>bubble_to_gmsh_entities\<close> and \<^verbatim>\<open>topology_to_gmsh_entities\<close> fill in.
\<close>

record GmshEntities =
  points :: "Point list"
  lines :: "Line list"
  curve_loops :: "CurveLoop list"
  plane_surfaces :: "PlaneSurface list"
  physical_groups :: "PhysicalGroup list"

text \<open>
  A \<^verbatim>\<open>shapely.Polygon\<close> as the compiler reads it: the coordinate sequence of the
  exterior ring (\<^verbatim>\<open>polygon.exterior.coords\<close>) and the coordinate sequences of the
  interior rings (\<^verbatim>\<open>loop.coords\<close> for \<^verbatim>\<open>loop in polygon.interiors\<close>). Every
  coordinate is a pair, as the source unpacks it (\<^verbatim>\<open>for x, y in ...\<close>).
\<close>

type_synonym coord = "real \<times> real"

record Polygon =
  exterior :: "coord list"
  interiors :: "coord list list"

text \<open>
  Modelled from the spec: the class \<^verbatim>\<open>Topology\<close> (module \<^verbatim>\<open>bubbles.topology\<close>) is
  not part of the sources at hand. The compiler uses two things of it: \<^verbatim>\<open>topo.flatten()\<close>,
  a finite sequence of (polygon, level) pairs, and \<^verbatim>\<open>topo.holes\<close>, the set of levels
  that are holes.
\<close>

record Topology =
  flatten :: "(Polygon \<times> int) list"
  holes :: "int set"

section \<open>The ring code of \<^verbatim>\<open>bubble_to_gmsh_entities\<close>\<close>

text \<open>
  \<^verbatim>\<open>for x, y in coords[:-1]: point = Point(x=x, y=y, z=0.0, lc=0.1, tag=point_tag);
  points_local.append(point); point_tag += 1\<close>. The first argument is what is left of
  \<^verbatim>\<open>coords[:-1]\<close>; the result is \<^verbatim>\<open>points_local\<close> and \<^verbatim>\<open>point_tag\<close> after the loop.
\<close>

fun points_loop :: "coord list \<Rightarrow> Point list \<Rightarrow> int \<Rightarrow> Point list \<times> int" where
  "points_loop [] points_local point_tag = (points_local, point_tag)"
| "points_loop ((cx, cy) # rest) points_local point_tag =
     points_loop rest
       (points_local @ [\<lparr>x = cx, y = cy, z = 0, lc = 0.1, Point.tag = point_tag\<rparr>])
       (point_tag + 1)"

text \<open>
  \<^verbatim>\<open>for i in range(len(points_local) - 1): line = Line(start_tag=points_local[i].tag,
  end_tag=points_local[i + 1].tag, tag=line_tag); lines_local.append(line); line_tag += 1\<close>.
  The first argument is what is left of the range. Every index of the range and its
  successor are below \<^verbatim>\<open>len(points_local)\<close>, so no read is out of range.
\<close>

fun lines_loop :: "nat list \<Rightarrow> Point list \<Rightarrow> Line list \<Rightarrow> int \<Rightarrow> Line list \<times> int" where
  "lines_loop [] points_local lines_local line_tag = (lines_local, line_tag)"
| "lines_loop (i # rest) points_local lines_local line_tag =
     lines_loop rest points_local
       (lines_local @
          [\<lparr>start_tag = Point.tag (points_local ! i),
            end_tag = Point.tag (points_local ! (i + 1)),
            Line.tag = line_tag\<rparr>])
       (line_tag + 1)"

text \<open>
  One ring: the statements of lines 231 to 258 (exterior ring) and, the same statements
  again, of lines 264 to 291 (each interior ring). \<^verbatim>\<open>range(len(points_local) - 1)\<close> is
  empty when there is no point or one point. The closing line reads
  \<^verbatim>\<open>points_local[-1]\<close> and \<^verbatim>\<open>points_local[0]\<close>, which raise \<^verbatim>\<open>IndexError\<close> on the
  empty list. The result is \<^verbatim>\<open>points_local\<close>, \<^verbatim>\<open>lines_local\<close>, the curve loop and the
  three counters after the ring.
\<close>

definition compile_ring ::
  "coord list \<Rightarrow> int \<Rightarrow> int \<Rightarrow> int \<Rightarrow>
   error + (Point list \<times> Line list \<times> CurveLoop \<times> int \<times> int \<times> int)" where
  "compile_ring coords point_tag line_tag curve_loop_tag =
     (let (points_local, point_tag1) = points_loop (butlast coords) [] point_tag;
          (lines_local, line_tag1) =
             lines_loop [0..<length points_local - 1] points_local [] line_tag
      in if points_local = [] then Inl IndexError
         else
           let line = \<lparr>start_tag = Point.tag (last points_local),
                       end_tag = Point.tag (hd points_local),
                       Line.tag = line_tag1\<rparr>;
               lines_local2 = lines_local @ [line];
               line_tag2 = line_tag1 + 1;
               curve_loop = \<lparr>line_tags = map Line.tag lines_local2,
                             CurveLoop.tag = curve_loop_tag\<rparr>
           in Inr (points_local, lines_local2, curve_loop,
                   point_tag1, line_tag2, curve_loop_tag + 1))"

text \<open>
  \<^verbatim>\<open>for loop in polygon.interiors: ...\<close>: every interior ring is compiled with the
  counters as they stand, its curve loop is appended to \<^verbatim>\<open>curve_loops\<close>, its points and
  lines to \<^verbatim>\<open>points_total\<close> and \<^verbatim>\<open>lines_total\<close>. An exception ends the loop.
\<close>

fun interiors_loop ::
  "coord list list \<Rightarrow> Point list \<Rightarrow> Line list \<Rightarrow> CurveLoop list \<Rightarrow> int \<Rightarrow> int \<Rightarrow> int \<Rightarrow>
   error + (Point list \<times> Line list \<times> CurveLoop list \<times> int \<times> int \<times> int)" where
  "interiors_loop [] points_total lines_total cloops point_tag line_tag curve_loop_tag =
     Inr (points_total, lines_total, cloops, point_tag, line_tag, curve_loop_tag)"
| "interiors_loop (loop # rest) points_total lines_total cloops point_tag line_tag
       curve_loop_tag =
     (case compile_ring loop point_tag line_tag curve_loop_tag of
        Inl e \<Rightarrow> Inl e
      | Inr (points_local, lines_local, curve_loop, point_tag1, line_tag1, curve_loop_tag1) \<Rightarrow>
          interiors_loop rest (points_total @ points_local) (lines_total @ lines_local)
            (cloops @ [curve_loop]) point_tag1 line_tag1 curve_loop_tag1)"

section \<open>\<^verbatim>\<open>bubble_to_gmsh_entities\<close>\<close>

definition bubble_to_gmsh_entities ::
  "Polygon \<Rightarrow> int \<Rightarrow> int \<Rightarrow> int \<Rightarrow> int \<Rightarrow> int \<Rightarrow>
   error + (GmshEntities \<times> int \<times> int \<times> int \<times> int)" where
  "bubble_to_gmsh_entities polygon level point_tag line_tag curve_loop_tag plane_surface_tag =
     (let physical_group_tag = level + 1
      in case compile_ring (exterior polygon) point_tag line_tag curve_loop_tag of
           Inl e \<Rightarrow> Inl e
         | Inr (points_local, lines_local, curve_loop, point_tag1, line_tag1, curve_loop_tag1) \<Rightarrow>
             (case interiors_loop (interiors polygon) ([] @ points_local) ([] @ lines_local)
                     ([] @ [curve_loop]) point_tag1 line_tag1 curve_loop_tag1 of
                Inl e \<Rightarrow> Inl e
              | Inr (points_total, lines_total, cloops, point_tag2, line_tag2, curve_loop_tag2) \<Rightarrow>
                  Inr (\<lparr>points = points_total,
                        lines = lines_total,
                        curve_loops = cloops,
                        plane_surfaces =
                          [\<lparr>curve_loop_tags = map CurveLoop.tag cloops,
                            PlaneSurface.tag = plane_surface_tag\<rparr>],
                        physical_groups =
                          [\<lparr>dim = 2, entity_tags = [plane_surface_tag],
                            PhysicalGroup.tag = physical_group_tag\<rparr>]\<rparr>,
                       point_tag2, line_tag2, curve_loop_tag2, plane_surface_tag + 1)))"

section \<open>\<^verbatim>\<open>topology_to_gmsh_entities\<close>\<close>

text \<open>
  \<^verbatim>\<open>for polygon, level in bubbles: if level not in topo.holes: ...\<close>: the bubbles that
  are not holes are compiled in order, the four counters threaded through the calls,
  and each local entity set is appended to \<^verbatim>\<open>all_entities_list\<close>.
\<close>

fun bubbles_loop ::
  "(Polygon \<times> int) list \<Rightarrow> int set \<Rightarrow> GmshEntities list \<Rightarrow> int \<Rightarrow> int \<Rightarrow> int \<Rightarrow> int \<Rightarrow>
   error + (GmshEntities list \<times> int \<times> int \<times> int \<times> int)" where
  "bubbles_loop [] hs all_entities_list point_tag line_tag curve_loop_tag plane_surface_tag =
     Inr (all_entities_list, point_tag, line_tag, curve_loop_tag, plane_surface_tag)"
| "bubbles_loop ((polygon, level) # rest) hs all_entities_list point_tag line_tag
       curve_loop_tag plane_surface_tag =
     (if level \<notin> hs then
        (case bubble_to_gmsh_entities polygon level point_tag line_tag curve_loop_tag
                plane_surface_tag of
           Inl e \<Rightarrow> Inl e
         | Inr (gmsh_entities, point_tag1, line_tag1, curve_loop_tag1, plane_surface_tag1) \<Rightarrow>
             bubbles_loop rest hs (all_entities_list @ [gmsh_entities]) point_tag1 line_tag1
               curve_loop_tag1 plane_surface_tag1)
      else bubbles_loop rest hs all_entities_list point_tag line_tag curve_loop_tag
             plane_surface_tag)"

text \<open>
  \<^verbatim>\<open>[e[0] for e in xss]\<close>: the first element of every list, \<^verbatim>\<open>IndexError\<close> when one
  of the lists is empty. It models \<^verbatim>\<open>e["physical_groups"][0]\<close> and
  \<^verbatim>\<open>s.entity_tags[0]\<close>.
\<close>

fun firsts :: "'a list list \<Rightarrow> error + 'a list" where
  "firsts [] = Inr []"
| "firsts ([] # rest) = Inl IndexError"
| "firsts ((v # vs) # rest) =
     (case firsts rest of Inl e \<Rightarrow> Inl e | Inr r \<Rightarrow> Inr (v # r))"

text \<open>
  \<^verbatim>\<open>itertools.groupby(xs, key)\<close>: the maximal runs of consecutive elements with the same
  key, each with its key, in order.
\<close>

function groupby :: "('a \<Rightarrow> 'k) \<Rightarrow> 'a list \<Rightarrow> ('k \<times> 'a list) list" where
  "groupby key [] = []"
| "groupby key (v # vs) =
     (key v, v # takeWhile (\<lambda>w. key w = key v) vs)
       # groupby key (dropWhile (\<lambda>w. key w = key v) vs)"
  by pat_completeness auto
termination
  by (relation "measure (\<lambda>(key, vs). length vs)")
     (auto simp: length_dropWhile_le less_Suc_eq_le)

text \<open>
  \<^verbatim>\<open>for tag, physical_group in groupby(...): entity_tags = [s.entity_tags[0] for s in
  physical_group]; physical_groups_merged.append(PhysicalGroup(dim=2,
  entity_tags=entity_tags, tag=tag))\<close>.
\<close>

fun merge_loop ::
  "(int \<times> PhysicalGroup list) list \<Rightarrow> PhysicalGroup list \<Rightarrow> error + PhysicalGroup list" where
  "merge_loop [] physical_groups_merged = Inr physical_groups_merged"
| "merge_loop ((t, physical_group) # rest) physical_groups_merged =
     (case firsts (map entity_tags physical_group) of
        Inl e \<Rightarrow> Inl e
      | Inr ets \<Rightarrow>
          merge_loop rest
            (physical_groups_merged @ [\<lparr>dim = 2, entity_tags = ets, PhysicalGroup.tag = t\<rparr>]))"

text \<open>
  The counters start at 1. \<^verbatim>\<open>physical_groups.sort(key=lambda x: x.tag)\<close> is Python's
  stable sort; \<open>sort_key\<close> is a stable sort by key as well (insertion sort).
\<close>

definition topology_to_gmsh_entities :: "Topology \<Rightarrow> error + GmshEntities" where
  "topology_to_gmsh_entities topo =
     (case bubbles_loop (flatten topo) (holes topo) [] 1 1 1 1 of
        Inl e \<Rightarrow> Inl e
      | Inr (all_entities_list, point_tag, line_tag, curve_loop_tag, plane_surface_tag) \<Rightarrow>
          (case firsts (map physical_groups all_entities_list) of
             Inl e \<Rightarrow> Inl e
           | Inr pgs \<Rightarrow>
               (case merge_loop (groupby PhysicalGroup.tag (sort_key PhysicalGroup.tag pgs)) [] of
                  Inl e \<Rightarrow> Inl e
                | Inr physical_groups_merged \<Rightarrow>
                    Inr \<lparr>points = concat (map points all_entities_list),
                         lines = concat (map lines all_entities_list),
                         curve_loops = concat (map curve_loops all_entities_list),
                         plane_surfaces = concat (map plane_surfaces all_entities_list),
                         physical_groups = physical_groups_merged\<rparr>)))"

section \<open>Closed forms of the loops\<close>

text \<open>
  The definitions of this section are not part of the program. They say, without
  accumulators, what the loops above compute; the lemmas of the next section prove that
  the program computes exactly that.
\<close>

definition ring_points :: "coord list \<Rightarrow> int \<Rightarrow> Point list" where
  "ring_points cs t =
     map (\<lambda>i. \<lparr>x = fst (cs ! i), y = snd (cs ! i), z = 0, lc = 0.1, Point.tag = t + int i\<rparr>)
       [0..<length cs]"

definition ring_lines :: "nat \<Rightarrow> int \<Rightarrow> int \<Rightarrow> Line list" where
  "ring_lines n pt lt =
     map (\<lambda>i. \<lparr>start_tag = pt + int i, end_tag = pt + int (Suc i mod n), Line.tag = lt + int i\<rparr>)
       [0..<n]"

definition tags_from :: "int \<Rightarrow> nat \<Rightarrow> int list" where
  "tags_from a n = map (\<lambda>i. a + int i) [0..<n]"

definition rings :: "Polygon \<Rightarrow> coord list list" where
  "rings polygon = exterior polygon # interiors polygon"

definition rings_size :: "coord list list \<Rightarrow> nat" where
  "rings_size rs = sum_list (map (\<lambda>r. length r - 1) rs)"

fun rings_points :: "coord list list \<Rightarrow> int \<Rightarrow> Point list" where
  "rings_points [] pt = []"
| "rings_points (r # rs) pt =
     ring_points (butlast r) pt @ rings_points rs (pt + int (length r - 1))"

fun rings_lines :: "coord list list \<Rightarrow> int \<Rightarrow> int \<Rightarrow> Line list" where
  "rings_lines [] pt lt = []"
| "rings_lines (r # rs) pt lt =
     ring_lines (length r - 1) pt lt
       @ rings_lines rs (pt + int (length r - 1)) (lt + int (length r - 1))"

fun rings_loops :: "coord list list \<Rightarrow> int \<Rightarrow> int \<Rightarrow> CurveLoop list" where
  "rings_loops [] lt ct = []"
| "rings_loops (r # rs) lt ct =
     \<lparr>line_tags = tags_from lt (length r - 1), CurveLoop.tag = ct\<rparr>
       # rings_loops rs (lt + int (length r - 1)) (ct + 1)"

definition bubble_entities :: "coord list list \<Rightarrow> int \<Rightarrow> int \<Rightarrow> int \<Rightarrow> int \<Rightarrow> int \<Rightarrow> GmshEntities" where
  "bubble_entities rs level pt lt ct st =
     \<lparr>points = rings_points rs pt,
      lines = rings_lines rs pt lt,
      curve_loops = rings_loops rs lt ct,
      plane_surfaces = [\<lparr>curve_loop_tags = tags_from ct (length rs), PlaneSurface.tag = st\<rparr>],
      physical_groups = [\<lparr>dim = 2, entity_tags = [st], PhysicalGroup.tag = level + 1\<rparr>]\<rparr>"

text \<open>
  A polygon compiles when each of its rings keeps a coordinate once the last one is
  dropped; \<open>non_holes\<close> are the pairs that the loop over the bubbles compiles.
\<close>

definition ok_polygon :: "Polygon \<Rightarrow> bool" where
  "ok_polygon polygon = list_all (\<lambda>r. butlast r \<noteq> []) (rings polygon)"

definition non_holes :: "Topology \<Rightarrow> (Polygon \<times> int) list" where
  "non_holes topo = filter (\<lambda>(polygon, level). level \<notin> holes topo) (flatten topo)"

fun regions_entities ::
  "(Polygon \<times> int) list \<Rightarrow> int \<Rightarrow> int \<Rightarrow> int \<Rightarrow> int \<Rightarrow> GmshEntities list" where
  "regions_entities [] pt lt ct st = []"
| "regions_entities ((polygon, level) # rest) pt lt ct st =
     bubble_entities (rings polygon) level pt lt ct st
       # regions_entities rest (pt + int (rings_size (rings polygon)))
           (lt + int (rings_size (rings polygon))) (ct + int (length (rings polygon))) (st + 1)"

fun region_groups :: "(Polygon \<times> int) list \<Rightarrow> int \<Rightarrow> PhysicalGroup list" where
  "region_groups [] st = []"
| "region_groups ((polygon, level) # rest) st =
     \<lparr>dim = 2, entity_tags = [st], PhysicalGroup.tag = level + 1\<rparr> # region_groups rest (st + 1)"

text \<open>
  Sorting by tag and grouping: one group per tag, in ascending order of the tags, with the
  first entity tag of every record of that tag, in the order of the records.
\<close>

definition merged_groups :: "PhysicalGroup list \<Rightarrow> PhysicalGroup list" where
  "merged_groups pgs =
     map (\<lambda>k. \<lparr>dim = 2,
                entity_tags = map (\<lambda>s. hd (entity_tags s)) (filter (\<lambda>g. PhysicalGroup.tag g = k) pgs),
                PhysicalGroup.tag = k\<rparr>)
       (sorted_list_of_set (PhysicalGroup.tag ` set pgs))"

definition all_ok :: "(Polygon \<times> int) list \<Rightarrow> bool" where
  "all_ok fs = list_all (\<lambda>(polygon, level). ok_polygon polygon) fs"

definition flattened :: "(Polygon \<times> int) list \<Rightarrow> GmshEntities" where
  "flattened fs =
     \<lparr>points = concat (map points (regions_entities fs 1 1 1 1)),
      lines = concat (map lines (regions_entities fs 1 1 1 1)),
      curve_loops = concat (map curve_loops (regions_entities fs 1 1 1 1)),
      plane_surfaces = concat (map plane_surfaces (regions_entities fs 1 1 1 1)),
      physical_groups = merged_groups (region_groups fs 1)\<rparr>"

section \<open>Example inputs\<close>

text \<open>
  The square and the square with a square hole of the two scenarios, a triangle, a ring
  with a repeated coordinate, a polygon without coordinates, and a topology with two
  regions of level 1, one of level 0 and one of the hole level 5, with the entity set it
  compiles to.
\<close>

definition square_ring :: "coord list" where
  "square_ring = [(0, 0), (1, 0), (1, 1), (0, 1), (0, 0)]"

definition inner_ring :: "coord list" where
  "inner_ring = [(0.25, 0.25), (0.75, 0.25), (0.75, 0.75), (0.25, 0.75), (0.25, 0.25)]"

definition square :: Polygon where
  "square = \<lparr>exterior = square_ring, interiors = []\<rparr>"

definition square_with_hole :: Polygon where
  "square_with_hole = \<lparr>exterior = square_ring, interiors = [inner_ring]\<rparr>"

definition triangle :: Polygon where
  "triangle = \<lparr>exterior = [(0, 0), (1, 0), (0, 1), (0, 0)], interiors = []\<rparr>"

definition example_topology :: Topology where
  "example_topology =
     \<lparr>flatten = [(triangle, 1), (square, 5), (triangle, 0), (triangle, 1)], holes = {5}\<rparr>"

definition example_entities :: GmshEntities where
  "example_entities =
     \<lparr>points =
        [\<lparr>x = 0, y = 0, z = 0, lc = 0.1, Point.tag = 1\<rparr>,
         \<lparr>x = 1, y = 0, z = 0, lc = 0.1, Point.tag = 2\<rparr>,
         \<lparr>x = 0, y = 1, z = 0, lc = 0.1, Point.tag = 3\<rparr>,
         \<lparr>x = 0, y = 0, z = 0, lc = 0.1, Point.tag = 4\<rparr>,
         \<lparr>x = 1, y = 0, z = 0, lc = 0.1, Point.tag = 5\<rparr>,
         \<lparr>x = 0, y = 1, z = 0, lc = 0.1, Point.tag = 6\<rparr>,
         \<lparr>x = 0, y = 0, z = 0, lc = 0.1, Point.tag = 7\<rparr>,
         \<lparr>x = 1, y = 0, z = 0, lc = 0.1, Point.tag = 8\<rparr>,
         \<lparr>x = 0, y = 1, z = 0, lc = 0.1, Point.tag = 9\<rparr>],
      lines =
        [\<lparr>start_tag = 1, end_tag = 2, Line.tag = 1\<rparr>,
         \<lparr>start_tag = 2, end_tag = 3, Line.tag = 2\<rparr>,
         \<lparr>start_tag = 3, end_tag = 1, Line.tag = 3\<rparr>,
         \<lparr>start_tag = 4, end_tag = 5, Line.tag = 4\<rparr>,
         \<lparr>start_tag = 5, end_tag = 6, Line.tag = 5\<rparr>,
         \<lparr>start_tag = 6, end_tag = 4, Line.tag = 6\<rparr>,
         \<lparr>start_tag = 7, end_tag = 8, Line.tag = 7\<rparr>,
         \<lparr>start_tag = 8, end_tag = 9, Line.tag = 8\<rparr>,
         \<lparr>start_tag = 9, end_tag = 7, Line.tag = 9\<rparr>],
      curve_loops =
        [\<lparr>line_tags = [1, 2, 3], CurveLoop.tag = 1\<rparr>,
         \<lparr>line_tags = [4, 5, 6], CurveLoop.tag = 2\<rparr>,
         \<lparr>line_tags = [7, 8, 9], CurveLoop.tag = 3\<rparr>],
      plane_surfaces =
        [\<lparr>curve_loop_tags = [1], PlaneSurface.tag = 1\<rparr>,
         \<lparr>curve_loop_tags = [2], PlaneSurface.tag = 2\<rparr>,
         \<lparr>curve_loop_tags = [3], PlaneSurface.tag = 3\<rparr>],
      physical_groups =
        [\<lparr>dim = 2, entity_tags = [2], PhysicalGroup.tag = 1\<rparr>,
         \<lparr>dim = 2, entity_tags = [1, 3], PhysicalGroup.tag = 2\<rparr>]\<rparr>"

definition square_with_hole_entities :: GmshEntities where
  "square_with_hole_entities =
     \<lparr>points =
        [\<lparr>x = 0, y = 0, z = 0, lc = 0.1, Point.tag = 1\<rparr>,
         \<lparr>x = 1, y = 0, z = 0, lc = 0.1, Point.tag = 2\<rparr>,
         \<lparr>x = 1, y = 1, z = 0, lc = 0.1, Point.tag = 3\<rparr>,
         \<lparr>x = 0, y = 1, z = 0, lc = 0.1, Point.tag = 4\<rparr>,
         \<lparr>x = 0.25, y = 0.25, z = 0, lc = 0.1, Point.tag = 5\<rparr>,
         \<lparr>x = 0.75, y = 0.25, z = 0, lc = 0.1, Point.tag = 6\<rparr>,
         \<lparr>x = 0.75, y = 0.75, z = 0, lc = 0.1, Point.tag = 7\<rparr>,
         \<lparr>x = 0.25, y = 0.75, z = 0, lc = 0.1, Point.tag = 8\<rparr>],
      lines =
        [\<lparr>start_tag = 1, end_tag = 2, Line.tag = 1\<rparr>,
         \<lparr>start_tag = 2, end_tag = 3, Line.tag = 2\<rparr>,
         \<lparr>start_tag = 3, end_tag = 4, Line.tag = 3\<rparr>,
         \<lparr>start_tag = 4, end_tag = 1, Line.tag = 4\<rparr>,
         \<lparr>start_tag = 5, end_tag = 6, Line.tag = 5\<rparr>,
         \<lparr>start_tag = 6, end_tag = 7, Line.tag = 6\<rparr>,
         \<lparr>start_tag = 7, end_tag = 8, Line.tag = 7\<rparr>,
         \<lparr>start_tag = 8, end_tag = 5, Line.tag = 8\<rparr>],
      curve_loops =
        [\<lparr>line_tags = [1, 2, 3, 4], CurveLoop.tag = 1\<rparr>,
         \<lparr>line_tags = [5, 6, 7, 8], CurveLoop.tag = 2\<rparr>],
      plane_surfaces = [\<lparr>curve_loop_tags = [1, 2], PlaneSurface.tag = 1\<rparr>],
      physical_groups = [\<lparr>dim = 2, entity_tags = [1], PhysicalGroup.tag = 1\<rparr>]\<rparr>"

definition degenerate :: Polygon where
  "degenerate = \<lparr>exterior = [(0, 0), (1, 0), (1, 0), (0, 0)], interiors = []\<rparr>"

definition empty_polygon :: Polygon where
  "empty_polygon = \<lparr>exterior = [], interiors = []\<rparr>"

section \<open>The program computes the closed forms\<close>

lemma points_loop_eq:
  "points_loop cs acc t =
     (acc @ map (\<lambda>i. \<lparr>x = fst (cs ! i), y = snd (cs ! i), z = 0, lc = 0.1,
                        Point.tag = t + int i\<rparr>) [0..<length cs],
      t + int (length cs))"
proof (induction cs arbitrary: acc t)
  case Nil
  show ?case by simp
next
  case (Cons c cs)
  obtain cx cy where c: "c = (cx, cy)" by (cases c)
  show ?case
    unfolding c points_loop.simps Cons.IH
    by (simp add: upt_conv_Cons map_Suc_upt[symmetric] add.assoc del: upt_Suc map_Suc_upt)
qed

lemma lines_loop_eq:
  "lines_loop is ps acc t =
     (acc @ map (\<lambda>k. \<lparr>start_tag = Point.tag (ps ! (is ! k)),
                        end_tag = Point.tag (ps ! (is ! k + 1)),
                        Line.tag = t + int k\<rparr>) [0..<length is],
      t + int (length is))"
proof (induction "is" arbitrary: acc t)
  case Nil
  show ?case by simp
next
  case (Cons i "is")
  show ?case
    unfolding lines_loop.simps Cons.IH
    by (simp add: upt_conv_Cons map_Suc_upt[symmetric] add.assoc del: upt_Suc map_Suc_upt)
qed

lemma points_loop_rp:
  "points_loop cs acc t = (acc @ ring_points cs t, t + int (length cs))"
  by (simp add: points_loop_eq ring_points_def)

lemma ring_points_Nil [simp]: "ring_points cs t = [] \<longleftrightarrow> cs = []"
  by (simp add: ring_points_def)

lemma length_ring_points [simp]: "length (ring_points cs t) = length cs"
  by (simp add: ring_points_def)

lemma length_ring_lines [simp]: "length (ring_lines n pt lt) = n"
  by (simp add: ring_lines_def)

lemma tag_ring_points_nth:
  "i < length cs \<Longrightarrow> Point.tag (ring_points cs t ! i) = t + int i"
  by (simp add: ring_points_def)

lemma ring_lines_open:
  assumes "length ps = Suc m" and "\<forall>i < Suc m. Point.tag (ps ! i) = pt + int i"
  shows "map (\<lambda>k. \<lparr>start_tag = Point.tag (ps ! ([0..<m] ! k)),
                    end_tag = Point.tag (ps ! ([0..<m] ! k + 1)),
                    Line.tag = lt + int k\<rparr>) [0..<length [0..<m]]
           @ [\<lparr>start_tag = Point.tag (last ps), end_tag = Point.tag (hd ps),
               Line.tag = lt + int (length [0..<m])\<rparr>]
         = ring_lines (Suc m) pt lt"
proof (rule nth_equalityI)
  show "length (map (\<lambda>k. \<lparr>start_tag = Point.tag (ps ! ([0..<m] ! k)),
                    end_tag = Point.tag (ps ! ([0..<m] ! k + 1)),
                    Line.tag = lt + int k\<rparr>) [0..<length [0..<m]]
           @ [\<lparr>start_tag = Point.tag (last ps), end_tag = Point.tag (hd ps),
               Line.tag = lt + int (length [0..<m])\<rparr>]) = length (ring_lines (Suc m) pt lt)"
    by simp
next
  fix i
  assume "i < length (map (\<lambda>k. \<lparr>start_tag = Point.tag (ps ! ([0..<m] ! k)),
                    end_tag = Point.tag (ps ! ([0..<m] ! k + 1)),
                    Line.tag = lt + int k\<rparr>) [0..<length [0..<m]]
           @ [\<lparr>start_tag = Point.tag (last ps), end_tag = Point.tag (hd ps),
               Line.tag = lt + int (length [0..<m])\<rparr>])"
  then have i: "i < Suc m" by simp
  have ne: "ps \<noteq> []" using assms(1) by auto
  have l: "last ps = ps ! m" using assms(1) ne by (simp add: last_conv_nth)
  have h: "hd ps = ps ! 0" using ne by (simp add: hd_conv_nth)
  show "(map (\<lambda>k. \<lparr>start_tag = Point.tag (ps ! ([0..<m] ! k)),
                    end_tag = Point.tag (ps ! ([0..<m] ! k + 1)),
                    Line.tag = lt + int k\<rparr>) [0..<length [0..<m]]
           @ [\<lparr>start_tag = Point.tag (last ps), end_tag = Point.tag (hd ps),
               Line.tag = lt + int (length [0..<m])\<rparr>]) ! i = ring_lines (Suc m) pt lt ! i"
  proof (cases "i < m")
    case True
    then show ?thesis using assms(2) i
      by (simp add: nth_append ring_lines_def del: upt_Suc)
  next
    case False
    with i have "i = m" by simp
    then show ?thesis using assms(2) l h
      by (simp add: nth_append ring_lines_def del: upt_Suc)
  qed
qed

lemma compile_ring_eq:
  "compile_ring coords pt lt ct =
     (if butlast coords = [] then Inl IndexError
      else Inr (ring_points (butlast coords) pt,
                ring_lines (length coords - 1) pt lt,
                \<lparr>line_tags = map (\<lambda>i. lt + int i) [0..<length coords - 1], CurveLoop.tag = ct\<rparr>,
                pt + int (length coords - 1), lt + int (length coords - 1), ct + 1))"
proof (cases "butlast coords = []")
  case True
  then show ?thesis
    by (simp add: compile_ring_def points_loop_rp lines_loop_eq ring_points_def)
next
  case False
  then obtain m where m: "length (butlast coords) = Suc m"
    by (cases "butlast coords") auto
  then have m': "length coords - Suc 0 = Suc m" by simp
  have ps: "length (ring_points (butlast coords) pt) = Suc m" using m by simp
  have tg: "\<forall>i < Suc m. Point.tag (ring_points (butlast coords) pt ! i) = pt + int i"
    using m by (simp add: tag_ring_points_nth)
  have lt: "map Line.tag (ring_lines (Suc m) pt lt) = map (\<lambda>i. lt + int i) [0..<Suc m]"
    by (simp add: ring_lines_def del: upt_Suc)
  show ?thesis
    using False ring_lines_open [OF ps tg, of lt] m m' lt
    by (simp add: compile_ring_def points_loop_rp lines_loop_eq del: upt_Suc map_append)
qed

lemma length_tags_from [simp]: "length (tags_from a n) = n"
  by (simp add: tags_from_def)

lemma tags_from_0 [simp]: "tags_from a 0 = []"
  by (simp add: tags_from_def)

lemma tags_from_Suc: "tags_from a (Suc n) = a # tags_from (a + 1) n"
  by (simp add: tags_from_def upt_conv_Cons map_Suc_upt[symmetric] add.assoc del: upt_Suc map_Suc_upt)

lemma tags_from_add: "tags_from a (m + n) = tags_from a m @ tags_from (a + int m) n"
proof (induction m arbitrary: a)
  case 0
  show ?case by simp
next
  case (Suc m)
  show ?case by (simp add: tags_from_Suc Suc.IH add.assoc)
qed

lemma tags_from_upto: "tags_from a n = [a..a + int n - 1]"
proof (induction n arbitrary: a)
  case 0
  show ?case by simp
next
  case (Suc n)
  have "[a..a + int (Suc n) - 1] = a # [a + 1..a + int (Suc n) - 1]"
    by (rule upto_rec1) simp
  also have "a + int (Suc n) - 1 = (a + 1) + int n - 1" by simp
  finally show ?case by (simp add: tags_from_Suc Suc.IH)
qed

lemma tags_ring_points: "map Point.tag (ring_points cs t) = tags_from t (length cs)"
  by (simp add: ring_points_def tags_from_def)

lemma tags_ring_lines: "map Line.tag (ring_lines n pt lt) = tags_from lt n"
  by (simp add: ring_lines_def tags_from_def)

lemma rings_size_simps [simp]:
  "rings_size [] = 0" "rings_size (r # rs) = (length r - 1) + rings_size rs"
  by (simp_all add: rings_size_def)

lemma compile_ring_tf:
  "compile_ring coords pt lt ct =
     (if butlast coords = [] then Inl IndexError
      else Inr (ring_points (butlast coords) pt,
                ring_lines (length coords - 1) pt lt,
                \<lparr>line_tags = tags_from lt (length coords - 1), CurveLoop.tag = ct\<rparr>,
                pt + int (length coords - 1), lt + int (length coords - 1), ct + 1))"
  by (simp add: compile_ring_eq tags_from_def)

lemma interiors_loop_eq:
  "interiors_loop rs P L C pt lt ct =
     (if \<exists>r \<in> set rs. butlast r = [] then Inl IndexError
      else Inr (P @ rings_points rs pt, L @ rings_lines rs pt lt, C @ rings_loops rs lt ct,
                pt + int (rings_size rs), lt + int (rings_size rs), ct + int (length rs)))"
proof (induction rs arbitrary: P L C pt lt ct)
  case Nil
  show ?case by simp
next
  case (Cons r rs)
  show ?case
    by (simp add: compile_ring_tf Cons.IH add.assoc)
qed

lemma tags_rings_loops: "map CurveLoop.tag (rings_loops rs lt ct) = tags_from ct (length rs)"
  by (induction rs arbitrary: lt ct) (simp_all add: tags_from_Suc)

lemma bubble_to_gmsh_entities_eq:
  "bubble_to_gmsh_entities polygon level pt lt ct st =
     (if \<exists>r \<in> set (rings polygon). butlast r = [] then Inl IndexError
      else Inr (bubble_entities (rings polygon) level pt lt ct st,
                pt + int (rings_size (rings polygon)), lt + int (rings_size (rings polygon)),
                ct + int (length (rings polygon)), st + 1))"
  by (simp add: bubble_to_gmsh_entities_def compile_ring_tf interiors_loop_eq rings_def
      bubble_entities_def tags_rings_loops tags_from_Suc add.assoc)

lemma bubble_eq_ok:
  "bubble_to_gmsh_entities polygon level pt lt ct st =
     (if ok_polygon polygon
      then Inr (bubble_entities (rings polygon) level pt lt ct st,
                pt + int (rings_size (rings polygon)), lt + int (rings_size (rings polygon)),
                ct + int (length (rings polygon)), st + 1)
      else Inl IndexError)"
  by (auto simp: bubble_to_gmsh_entities_eq ok_polygon_def list_all_iff)

lemma bubbles_loop_eq:
  "bubbles_loop bs hs acc pt lt ct st =
     (if list_all (\<lambda>(polygon, level). ok_polygon polygon)
           (filter (\<lambda>(polygon, level). level \<notin> hs) bs)
      then Inr (acc @ regions_entities (filter (\<lambda>(polygon, level). level \<notin> hs) bs) pt lt ct st,
                pt + int (sum_list (map (\<lambda>(polygon, level). rings_size (rings polygon))
                           (filter (\<lambda>(polygon, level). level \<notin> hs) bs))),
                lt + int (sum_list (map (\<lambda>(polygon, level). rings_size (rings polygon))
                           (filter (\<lambda>(polygon, level). level \<notin> hs) bs))),
                ct + int (sum_list (map (\<lambda>(polygon, level). length (rings polygon))
                           (filter (\<lambda>(polygon, level). level \<notin> hs) bs))),
                st + int (length (filter (\<lambda>(polygon, level). level \<notin> hs) bs)))
      else Inl IndexError)"
proof (induction bs arbitrary: acc pt lt ct st)
  case Nil
  show ?case by simp
next
  case (Cons b bs)
  obtain polygon level where b: "b = (polygon, level)" by (cases b)
  show ?case
    unfolding b by (simp add: bubble_eq_ok Cons.IH add.assoc)
qed

lemma firsts_Inr:
  "list_all (\<lambda>vs. vs \<noteq> []) xss \<Longrightarrow> firsts xss = Inr (map hd xss)"
proof (induction xss)
  case Nil
  show ?case by simp
next
  case (Cons vs xss)
  then show ?case by (cases vs) simp_all
qed

lemma firsts_regions_entities:
  "firsts (map physical_groups (regions_entities fs pt lt ct st)) = Inr (region_groups fs st)"
  by (induction fs pt lt ct st rule: regions_entities.induct) (simp_all add: bubble_entities_def)

lemma merge_loop_eq:
  "list_all (\<lambda>(t, grp). list_all (\<lambda>s. entity_tags s \<noteq> []) grp) gs \<Longrightarrow>
   merge_loop gs acc =
     Inr (acc @ map (\<lambda>(t, grp). \<lparr>dim = 2, entity_tags = map (\<lambda>s. hd (entity_tags s)) grp,
                                   PhysicalGroup.tag = t\<rparr>) gs)"
proof (induction gs arbitrary: acc)
  case Nil
  show ?case by simp
next
  case (Cons g gs)
  obtain t grp where g: "g = (t, grp)" by (cases g)
  from Cons.prems have a: "list_all (\<lambda>vs. vs \<noteq> []) (map entity_tags grp)"
    and b: "list_all (\<lambda>(t, grp). list_all (\<lambda>s. entity_tags s \<noteq> []) grp) gs"
    by (simp_all add: g list_all_iff)
  show ?case
    unfolding g by (simp add: firsts_Inr [OF a] Cons.IH [OF b] comp_def)
qed

lemma remdups_adj_dropWhile:
  "remdups_adj (k # ks) = k # remdups_adj (dropWhile (\<lambda>j. j = k) ks)"
  by (induction ks) auto

lemma groupby_keys: "map fst (groupby key vs) = remdups_adj (map key vs)"
proof (induction key vs rule: groupby.induct)
  case (1 key)
  show ?case by simp
next
  case (2 key v vs)
  have "remdups_adj (map key (v # vs))
      = key v # remdups_adj (dropWhile (\<lambda>j. j = key v) (map key vs))"
    by (simp add: remdups_adj_dropWhile)
  also have "dropWhile (\<lambda>j. j = key v) (map key vs)
      = map key (dropWhile (\<lambda>w. key w = key v) vs)"
    by (simp add: dropWhile_map comp_def)
  finally show ?case using "2.IH" by simp
qed

lemma sorted_run:
  fixes key :: "'a \<Rightarrow> 'k::linorder"
  assumes "sorted (map key (v # vs))"
  shows "takeWhile (\<lambda>w. key w = key v) vs = filter (\<lambda>w. key w = key v) vs"
    and "dropWhile (\<lambda>w. key w = key v) vs = filter (\<lambda>w. key w \<noteq> key v) vs"
  using assms
proof (induction vs)
  case Nil
  { case 1 show ?case by simp }
  { case 2 show ?case by simp }
next
  case (Cons w ws)
  { case 1
    show ?case
    proof (cases "key w = key v")
      case True
      with 1 Cons.IH(1) show ?thesis by simp
    next
      case False
      with 1 have "\<forall>u \<in> set ws. key v < key u" by fastforce
      then have "filter (\<lambda>w. key w = key v) ws = []" by (auto simp: filter_empty_conv)
      with False show ?thesis by simp
    qed }
  { case 2
    show ?case
    proof (cases "key w = key v")
      case True
      with 2 Cons.IH(2) show ?thesis by simp
    next
      case False
      with 2 have "\<forall>u \<in> set ws. key v < key u" by fastforce
      then have "filter (\<lambda>w. key w \<noteq> key v) ws = ws" by (auto simp: filter_id_conv)
      with False show ?thesis by simp
    qed }
qed

lemma groupby_sorted_groups:
  fixes key :: "'a \<Rightarrow> 'k::linorder"
  assumes "sorted (map key vs)" and "(k, g) \<in> set (groupby key vs)"
  shows "g = filter (\<lambda>w. key w = k) vs"
  using assms
proof (induction key vs rule: groupby.induct)
  case (1 key)
  then show ?case by simp
next
  case (2 key v vs)
  note srt = \<open>sorted (map key (v # vs))\<close>
  show ?case
  proof (cases "(k, g) = (key v, v # takeWhile (\<lambda>w. key w = key v) vs)")
    case True
    then show ?thesis using sorted_run(1) [OF srt] by simp
  next
    case False
    with "2.prems"(2) have mem: "(k, g) \<in> set (groupby key (dropWhile (\<lambda>w. key w = key v) vs))"
      by auto
    have "sorted (map key (dropWhile (\<lambda>w. key w = key v) vs))"
      using srt by (simp add: sorted_run(2) [OF srt] sorted_wrt_map sorted_wrt_filter)
    from "2.IH" [OF this mem]
    have g: "g = filter (\<lambda>w. key w = k) (filter (\<lambda>w. key w \<noteq> key v) vs)"
      by (simp add: sorted_run(2) [OF srt])
    have "k \<in> set (map fst (groupby key (dropWhile (\<lambda>w. key w = key v) vs)))"
      using mem by force
    then have "k \<in> key ` set (filter (\<lambda>w. key w \<noteq> key v) vs)"
      by (simp add: groupby_keys sorted_run(2) [OF srt])
    then have "k \<noteq> key v" by auto
    then show ?thesis unfolding g by (auto intro: filter_cong)
  qed
qed

lemma distinct_remdups_adj_sorted:
  fixes ks :: "'k::linorder list"
  shows "sorted ks \<Longrightarrow> distinct (remdups_adj ks)"
proof (induction ks rule: remdups_adj.induct)
  case 1
  show ?case by simp
next
  case (2 k)
  show ?case by simp
next
  case (3 k j ks)
  then show ?case by (cases "k = j") auto
qed

lemma groupby_sort_key:
  fixes key :: "'a \<Rightarrow> 'k::linorder"
  shows "groupby key (sort_key key vs) =
           map (\<lambda>k. (k, filter (\<lambda>w. key w = k) vs)) (sorted_list_of_set (key ` set vs))"
proof -
  let ?ys = "sort_key key vs"
  have srt: "sorted (map key ?ys)" by simp
  have "groupby key ?ys = map (\<lambda>kg. (fst kg, filter (\<lambda>w. key w = fst kg) ?ys)) (groupby key ?ys)"
    by (rule map_idI [symmetric]) (auto dest: groupby_sorted_groups [OF srt])
  also have "\<dots> = map (\<lambda>k. (k, filter (\<lambda>w. key w = k) vs)) (map fst (groupby key ?ys))"
    by (simp add: comp_def sort_key_stable)
  also have "map fst (groupby key ?ys) = sorted_list_of_set (key ` set vs)"
  proof (rule sorted_distinct_set_unique)
    show "sorted (map fst (groupby key ?ys))" by (simp add: groupby_keys)
    show "distinct (map fst (groupby key ?ys))"
      by (simp add: groupby_keys distinct_remdups_adj_sorted)
    show "set (map fst (groupby key ?ys)) = set (sorted_list_of_set (key ` set vs))"
      by (simp add: groupby_keys)
  qed simp_all
  finally show ?thesis .
qed

lemma entity_tags_region_groups:
  "list_all (\<lambda>s. entity_tags s \<noteq> []) (region_groups fs st)"
  by (induction fs st rule: region_groups.induct) simp_all

lemma merge_loop_groupby:
  assumes "list_all (\<lambda>s. entity_tags s \<noteq> []) pgs"
  shows "merge_loop (groupby PhysicalGroup.tag (sort_key PhysicalGroup.tag pgs)) [] =
           Inr (merged_groups pgs)"
proof -
  have "list_all (\<lambda>(t, grp). list_all (\<lambda>s. entity_tags s \<noteq> []) grp)
          (groupby PhysicalGroup.tag (sort_key PhysicalGroup.tag pgs))"
    using assms by (auto simp: groupby_sort_key list_all_iff)
  from merge_loop_eq [OF this, of "[]"] show ?thesis
    by (simp add: groupby_sort_key merged_groups_def comp_def)
qed

lemma topology_to_gmsh_entities_eq:
  "topology_to_gmsh_entities topo =
     (if all_ok (non_holes topo) then Inr (flattened (non_holes topo)) else Inl IndexError)"
  by (simp add: topology_to_gmsh_entities_def bubbles_loop_eq non_holes_def [symmetric]
      all_ok_def [symmetric] firsts_regions_entities
      merge_loop_groupby [OF entity_tags_region_groups] flattened_def)

lemma example_compiles: "topology_to_gmsh_entities example_topology = Inr example_entities"
  by (simp add: example_topology_def example_entities_def triangle_def square_def
      square_ring_def topology_to_gmsh_entities_def bubble_to_gmsh_entities_def
      compile_ring_def upt_conv_Cons)

lemma tags_rings_points:
  "map Point.tag (rings_points rs pt) = tags_from pt (rings_size rs)"
  by (induction rs arbitrary: pt) (simp_all add: tags_ring_points tags_from_add)

lemma tags_rings_lines:
  "map Line.tag (rings_lines rs pt lt) = tags_from lt (rings_size rs)"
  by (induction rs arbitrary: pt lt) (simp_all add: tags_ring_lines tags_from_add)

lemma tags_regions_points:
  "map Point.tag (concat (map points (regions_entities fs pt lt ct st))) =
     tags_from pt (sum_list (map (\<lambda>(polygon, level). rings_size (rings polygon)) fs))"
  by (induction fs pt lt ct st rule: regions_entities.induct)
     (simp_all add: bubble_entities_def tags_rings_points tags_from_add)

lemma tags_regions_lines:
  "map Line.tag (concat (map lines (regions_entities fs pt lt ct st))) =
     tags_from lt (sum_list (map (\<lambda>(polygon, level). rings_size (rings polygon)) fs))"
  by (induction fs pt lt ct st rule: regions_entities.induct)
     (simp_all add: bubble_entities_def tags_rings_lines tags_from_add)

lemma tags_regions_loops:
  "map CurveLoop.tag (concat (map curve_loops (regions_entities fs pt lt ct st))) =
     tags_from ct (sum_list (map (\<lambda>(polygon, level). length (rings polygon)) fs))"
  by (induction fs pt lt ct st rule: regions_entities.induct)
     (simp_all add: bubble_entities_def tags_rings_loops tags_from_add)

lemma tags_regions_surfaces:
  "map PlaneSurface.tag (concat (map plane_surfaces (regions_entities fs pt lt ct st))) =
     tags_from st (length fs)"
  by (induction fs pt lt ct st rule: regions_entities.induct)
     (simp_all add: bubble_entities_def tags_from_Suc)

lemma tags_from_range:
  assumes "map f vs = tags_from 1 n"
  shows "map f vs = [1..int (length vs)] \<and> distinct (map f vs)"
proof -
  have "length (map f vs) = length (tags_from 1 n)" using assms by simp
  then have "n = length vs" by simp
  then show ?thesis using assms by (simp add: tags_from_upto)
qed

section \<open>Tags\<close>

text \<open>
  Claim C1. When \<^verbatim>\<open>topology_to_gmsh_entities\<close> returns, the tags of the points, of the
  lines, of the curve loops and of the plane surfaces are, each kind in the order of its
  list (the order of creation), exactly 1, 2, ..., N, where N is the number of entities
  of the kind; so they are pairwise distinct, without gap and never reused by another
  region.
\<close>
theorem tags_contiguous:
  assumes "topology_to_gmsh_entities topo = Inr ents"
  shows "(map Point.tag (points ents) = [1..int (length (points ents))]
            \<and> distinct (map Point.tag (points ents)))
       \<and> (map Line.tag (lines ents) = [1..int (length (lines ents))]
            \<and> distinct (map Line.tag (lines ents)))
       \<and> (map CurveLoop.tag (curve_loops ents) = [1..int (length (curve_loops ents))]
            \<and> distinct (map CurveLoop.tag (curve_loops ents)))
       \<and> (map PlaneSurface.tag (plane_surfaces ents) = [1..int (length (plane_surfaces ents))]
            \<and> distinct (map PlaneSurface.tag (plane_surfaces ents)))"
proof -
  from assms have ents: "ents = flattened (non_holes topo)"
    by (simp add: topology_to_gmsh_entities_eq split: if_splits)
  show ?thesis
    unfolding ents flattened_def
    using tags_from_range [OF tags_regions_points] tags_from_range [OF tags_regions_lines]
      tags_from_range [OF tags_regions_loops] tags_from_range [OF tags_regions_surfaces]
    by simp
qed

theorem tags_contiguous_witness:
  "topology_to_gmsh_entities example_topology = Inr example_entities
   \<and> map Point.tag (points example_entities) = [1, 2, 3, 4, 5, 6, 7, 8, 9]
   \<and> map Line.tag (lines example_entities) = [1, 2, 3, 4, 5, 6, 7, 8, 9]
   \<and> map CurveLoop.tag (curve_loops example_entities) = [1, 2, 3]
   \<and> map PlaneSurface.tag (plane_surfaces example_entities) = [1, 2, 3]"
  using example_compiles tags_contiguous [OF example_compiles]
  by (simp add: example_entities_def)

lemma z_lc_ring_points:
  "p \<in> set (ring_points cs t) \<Longrightarrow> z p = 0 \<and> lc p = 0.1"
  by (auto simp: ring_points_def)

lemma z_lc_rings_points:
  "p \<in> set (rings_points rs pt) \<Longrightarrow> z p = 0 \<and> lc p = 0.1"
proof (induction rs arbitrary: pt)
  case Nil
  then show ?case by simp
next
  case (Cons r rs)
  from Cons.prems have "p \<in> set (ring_points (butlast r) pt)
      \<or> p \<in> set (rings_points rs (pt + int (length r - 1)))"
    by simp
  then show ?case using z_lc_ring_points Cons.IH by blast
qed

lemma z_lc_regions_points:
  "p \<in> set (concat (map points (regions_entities fs pt lt ct st))) \<Longrightarrow>
   z p = 0 \<and> lc p = 0.1"
proof (induction fs pt lt ct st rule: regions_entities.induct)
  case (1 pt lt ct st)
  then show ?case by simp
next
  case (2 polygon level rest pt lt ct st)
  from "2.prems" have "p \<in> set (rings_points (rings polygon) pt)
      \<or> p \<in> set (concat (map points (regions_entities rest
              (pt + int (rings_size (rings polygon))) (lt + int (rings_size (rings polygon)))
              (ct + int (length (rings polygon))) (st + 1))))"
    by (simp add: bubble_entities_def)
  then show ?case using z_lc_rings_points "2.IH" by blast
qed

section \<open>Points\<close>

text \<open>
  Claim C10. Every point that \<^verbatim>\<open>bubble_to_gmsh_entities\<close> returns, and so every point
  that \<^verbatim>\<open>topology_to_gmsh_entities\<close> returns, has \<^verbatim>\<open>z = 0.0\<close> and \<^verbatim>\<open>lc = 0.1\<close>, whatever
  the polygon, the ring, the level and the counters are. Neither function has a parameter
  for the characteristic length.
\<close>
theorem points_z_lc:
  "(bubble_to_gmsh_entities polygon level pt lt ct st = Inr (ents, counters) \<longrightarrow>
      list_all (\<lambda>p. z p = 0 \<and> lc p = 0.1) (points ents))
   \<and> (topology_to_gmsh_entities topo = Inr ents' \<longrightarrow>
      list_all (\<lambda>p. z p = 0 \<and> lc p = 0.1) (points ents'))"
proof (intro conjI impI)
  assume "bubble_to_gmsh_entities polygon level pt lt ct st = Inr (ents, counters)"
  then have "points ents = rings_points (rings polygon) pt"
    by (auto simp: bubble_to_gmsh_entities_eq bubble_entities_def split: if_splits)
  then show "list_all (\<lambda>p. z p = 0 \<and> lc p = 0.1) (points ents)"
    unfolding list_all_iff using z_lc_rings_points by metis
next
  assume "topology_to_gmsh_entities topo = Inr ents'"
  then have "points ents' = concat (map points (regions_entities (non_holes topo) 1 1 1 1))"
    by (auto simp: topology_to_gmsh_entities_eq flattened_def split: if_splits)
  then show "list_all (\<lambda>p. z p = 0 \<and> lc p = 0.1) (points ents')"
    unfolding list_all_iff using z_lc_regions_points by metis
qed

lemma square_with_hole_compiles:
  "bubble_to_gmsh_entities square_with_hole 0 1 1 1 1 =
     Inr (square_with_hole_entities, 9, 9, 3, 2)"
  by (simp add: square_with_hole_def square_with_hole_entities_def square_ring_def
      inner_ring_def bubble_to_gmsh_entities_def compile_ring_def upt_conv_Cons)

theorem points_z_lc_witness:
  "bubble_to_gmsh_entities square_with_hole 0 1 1 1 1 =
     Inr (square_with_hole_entities, 9, 9, 3, 2)
   \<and> topology_to_gmsh_entities example_topology = Inr example_entities
   \<and> list_all (\<lambda>p. z p = 0 \<and> lc p = 0.1) (points square_with_hole_entities)
   \<and> list_all (\<lambda>p. z p = 0 \<and> lc p = 0.1) (points example_entities)"
  using square_with_hole_compiles example_compiles
    points_z_lc [of square_with_hole 0 1 1 1 1 square_with_hole_entities "(9, 9, 3, 2)"
      example_topology example_entities]
  by simp

section \<open>The empty topology\<close>

text \<open>
  Claim C9. When no (polygon, level) pair of the topology is left after the pairs with a
  hole level are dropped, \<^verbatim>\<open>topology_to_gmsh_entities\<close> returns (it raises nothing) and the
  five collections of the entity set are empty.
\<close>
theorem empty_topology:
  assumes "filter (\<lambda>(polygon, level). level \<notin> holes topo) (flatten topo) = []"
  shows "topology_to_gmsh_entities topo =
           Inr \<lparr>points = [], lines = [], curve_loops = [], plane_surfaces = [],
                physical_groups = []\<rparr>"
  using assms
  by (simp add: topology_to_gmsh_entities_eq non_holes_def all_ok_def flattened_def
      merged_groups_def)

theorem empty_topology_witness:
  "filter (\<lambda>(polygon, level). level \<notin> holes \<lparr>flatten = [(square, 1), (triangle, 1)], holes = {1}\<rparr>)
     (flatten \<lparr>flatten = [(square, 1), (triangle, 1)], holes = {1}\<rparr>) = []
   \<and> topology_to_gmsh_entities \<lparr>flatten = [(square, 1), (triangle, 1)], holes = {1}\<rparr> =
           Inr \<lparr>points = [], lines = [], curve_loops = [], plane_surfaces = [],
                physical_groups = []\<rparr>"
proof -
  have h: "filter (\<lambda>(polygon, level). level \<notin> holes \<lparr>flatten = [(square, 1), (triangle, 1)], holes = {1}\<rparr>)
     (flatten \<lparr>flatten = [(square, 1), (triangle, 1)], holes = {1}\<rparr>) = []"
    by simp
  show ?thesis using h empty_topology [OF h] by simp
qed

section \<open>The square\<close>

text \<open>
  Claim C7. The topology with the single square ring (0,0), (1,0), (1,1), (0,1), (0,0) at
  level 0 and no hole level compiles to the points 1 to 4, the lines 1 to 4 (the last
  one from point 4 to point 1), the curve loop 1 with the lines 1, 2, 3, 4, the plane
  surface 1 with the loop 1 and the physical group 1 with the entity 1.
\<close>
theorem square_round_trip:
  "topology_to_gmsh_entities
     \<lparr>flatten = [(\<lparr>exterior = [(0, 0), (1, 0), (1, 1), (0, 1), (0, 0)], interiors = []\<rparr>, 0)],
      holes = {}\<rparr> =
   Inr \<lparr>points =
         [\<lparr>x = 0, y = 0, z = 0, lc = 0.1, Point.tag = 1\<rparr>,
          \<lparr>x = 1, y = 0, z = 0, lc = 0.1, Point.tag = 2\<rparr>,
          \<lparr>x = 1, y = 1, z = 0, lc = 0.1, Point.tag = 3\<rparr>,
          \<lparr>x = 0, y = 1, z = 0, lc = 0.1, Point.tag = 4\<rparr>],
        lines =
          [\<lparr>start_tag = 1, end_tag = 2, Line.tag = 1\<rparr>,
           \<lparr>start_tag = 2, end_tag = 3, Line.tag = 2\<rparr>,
           \<lparr>start_tag = 3, end_tag = 4, Line.tag = 3\<rparr>,
           \<lparr>start_tag = 4, end_tag = 1, Line.tag = 4\<rparr>],
        curve_loops = [\<lparr>line_tags = [1, 2, 3, 4], CurveLoop.tag = 1\<rparr>],
        plane_surfaces = [\<lparr>curve_loop_tags = [1], PlaneSurface.tag = 1\<rparr>],
        physical_groups = [\<lparr>dim = 2, entity_tags = [1], PhysicalGroup.tag = 1\<rparr>]\<rparr>"
  by (simp add: topology_to_gmsh_entities_def bubble_to_gmsh_entities_def compile_ring_def
      upt_conv_Cons)

section \<open>One ring\<close>

text \<open>
  Claim C2. Let a ring be given by \<open>N \<ge> 3\<close> distinct coordinates \<open>cs\<close> followed by the first
  of them again (the closing duplicate). The ring code then returns \<open>N\<close> points, one per
  coordinate of \<open>cs\<close> in order, and \<open>N\<close> lines: line \<open>i\<close> goes from point \<open>i\<close> to point
  \<open>i + 1\<close>, the last line from the last point back to the first. It returns one curve
  loop, whose line tags are the tags of these lines in order. The lines form one closed
  cycle: the end of line \<open>i\<close> is the start of line \<open>i + 1\<close> modulo \<open>N\<close>, and the starts of the
  lines are the points, each once. A polygon with this ring as its exterior ring and no
  interior ring compiles to exactly these points and lines and this one curve loop.
\<close>
theorem ring_compiled:
  assumes "coords = cs @ [hd cs]" and "distinct cs" and "3 \<le> length cs"
  shows "\<exists>ps ls cl.
           compile_ring coords pt lt ct =
             Inr (ps, ls, cl, pt + int (length cs), lt + int (length cs), ct + 1)
         \<and> length ps = length cs \<and> length ls = length cs
         \<and> (\<forall>i < length cs. ps ! i =
               \<lparr>x = fst (cs ! i), y = snd (cs ! i), z = 0, lc = 0.1, Point.tag = pt + int i\<rparr>)
         \<and> (\<forall>i < length cs. ls ! i =
               \<lparr>start_tag = Point.tag (ps ! i),
                end_tag = Point.tag (ps ! (Suc i mod length cs)),
                Line.tag = lt + int i\<rparr>)
         \<and> cl = \<lparr>line_tags = map Line.tag ls, CurveLoop.tag = ct\<rparr>
         \<and> (\<forall>i < length cs. end_tag (ls ! i) = start_tag (ls ! (Suc i mod length cs)))
         \<and> map start_tag ls = map Point.tag ps
         \<and> distinct (map Point.tag ps)
         \<and> bubble_to_gmsh_entities \<lparr>exterior = coords, interiors = []\<rparr> level pt lt ct st =
             Inr (\<lparr>points = ps, lines = ls, curve_loops = [cl],
                   plane_surfaces = [\<lparr>curve_loop_tags = [ct], PlaneSurface.tag = st\<rparr>],
                   physical_groups =
                     [\<lparr>dim = 2, entity_tags = [st], PhysicalGroup.tag = level + 1\<rparr>]\<rparr>,
                  pt + int (length cs), lt + int (length cs), ct + 1, st + 1)"
proof -
  define n where "n = length cs"
  define ps where "ps = ring_points cs pt"
  define ls where "ls = ring_lines n pt lt"
  define cl where "cl = \<lparr>line_tags = tags_from lt n, CurveLoop.tag = ct\<rparr>"
  have bl: "butlast coords = cs" and len: "length coords - 1 = n"
    and len': "length coords - Suc 0 = n"
    using assms(1) by (simp_all add: n_def)
  have ne: "cs \<noteq> []" and n0: "0 < n" using assms(3) by (auto simp: n_def)
  have cr: "compile_ring coords pt lt ct = Inr (ps, ls, cl, pt + int n, lt + int n, ct + 1)"
    using ne by (simp add: compile_ring_tf bl len' ps_def ls_def cl_def)
  have l1: "length ps = n" and l2: "length ls = n"
    by (simp_all add: ps_def ls_def n_def)
  have p: "\<forall>i < n. ps ! i =
      \<lparr>x = fst (cs ! i), y = snd (cs ! i), z = 0, lc = 0.1, Point.tag = pt + int i\<rparr>"
    by (simp add: ps_def ring_points_def n_def)
  have l: "\<forall>i < n. ls ! i =
      \<lparr>start_tag = Point.tag (ps ! i), end_tag = Point.tag (ps ! (Suc i mod n)),
       Line.tag = lt + int i\<rparr>"
    using n0 by (simp add: ls_def ring_lines_def ps_def ring_points_def n_def)
  have c: "cl = \<lparr>line_tags = map Line.tag ls, CurveLoop.tag = ct\<rparr>"
    by (simp add: cl_def ls_def tags_ring_lines)
  have cyc: "\<forall>i < n. end_tag (ls ! i) = start_tag (ls ! (Suc i mod n))"
    using n0 by (simp add: ls_def ring_lines_def)
  have st: "map start_tag ls = map Point.tag ps"
    by (simp add: ls_def ring_lines_def ps_def ring_points_def n_def)
  have d: "distinct (map Point.tag ps)"
    by (simp add: ps_def tags_ring_points tags_from_upto)
  have b: "bubble_to_gmsh_entities \<lparr>exterior = coords, interiors = []\<rparr> level pt lt ct st =
             Inr (\<lparr>points = ps, lines = ls, curve_loops = [cl],
                   plane_surfaces = [\<lparr>curve_loop_tags = [ct], PlaneSurface.tag = st\<rparr>],
                   physical_groups =
                     [\<lparr>dim = 2, entity_tags = [st], PhysicalGroup.tag = level + 1\<rparr>]\<rparr>,
                  pt + int n, lt + int n, ct + 1, st + 1)"
    using ne
    by (simp add: bubble_to_gmsh_entities_eq rings_def bl len' bubble_entities_def ps_def
        ls_def cl_def tags_from_Suc)
  show ?thesis
    using cr l1 l2 p l c cyc st d b unfolding n_def by blast
qed

theorem ring_compiled_witness:
  "[(0, 0), (1, 0), (0, 1), (0, 0)] = [(0, 0), (1, 0), (0, 1)] @ [hd [(0, 0), (1, 0), (0::real, 1::real)]]
   \<and> distinct [(0, 0), (1, 0), (0::real, 1::real)]
   \<and> 3 \<le> length [(0, 0), (1, 0), (0::real, 1::real)]
   \<and> compile_ring [(0, 0), (1, 0), (0, 1), (0, 0)] 5 7 2 =
        Inr ([\<lparr>x = 0, y = 0, z = 0, lc = 0.1, Point.tag = 5\<rparr>,
              \<lparr>x = 1, y = 0, z = 0, lc = 0.1, Point.tag = 6\<rparr>,
              \<lparr>x = 0, y = 1, z = 0, lc = 0.1, Point.tag = 7\<rparr>],
             [\<lparr>start_tag = 5, end_tag = 6, Line.tag = 7\<rparr>,
              \<lparr>start_tag = 6, end_tag = 7, Line.tag = 8\<rparr>,
              \<lparr>start_tag = 7, end_tag = 5, Line.tag = 9\<rparr>],
             \<lparr>line_tags = [7, 8, 9], CurveLoop.tag = 2\<rparr>, 8, 10, 3)"
proof -
  have h1: "[(0, 0), (1, 0), (0, 1), (0, 0)] =
      [(0, 0), (1, 0), (0, 1)] @ [hd [(0, 0), (1, 0), (0::real, 1::real)]]"
    by simp
  have h2: "distinct [(0, 0), (1, 0), (0::real, 1::real)]" by simp
  have h3: "3 \<le> length [(0, 0), (1, 0), (0::real, 1::real)]" by simp
  have e: "compile_ring [(0, 0), (1, 0), (0, 1), (0, 0)] 5 7 2 =
        Inr ([\<lparr>x = 0, y = 0, z = 0, lc = 0.1, Point.tag = 5\<rparr>,
              \<lparr>x = 1, y = 0, z = 0, lc = 0.1, Point.tag = 6\<rparr>,
              \<lparr>x = 0, y = 1, z = 0, lc = 0.1, Point.tag = 7\<rparr>],
             [\<lparr>start_tag = 5, end_tag = 6, Line.tag = 7\<rparr>,
              \<lparr>start_tag = 6, end_tag = 7, Line.tag = 8\<rparr>,
              \<lparr>start_tag = 7, end_tag = 5, Line.tag = 9\<rparr>],
             \<lparr>line_tags = [7, 8, 9], CurveLoop.tag = 2\<rparr>, 8, 10, 3)"
    by (simp add: compile_ring_def upt_conv_Cons)
  show ?thesis
    using h1 h2 h3 e ring_compiled [OF h1 h2 h3, of 5 7 2 0 1] by blast
qed

lemma all_ok_iff:
  "all_ok (non_holes topo) \<longleftrightarrow>
     (\<forall>(polygon, level) \<in> set (flatten topo). level \<notin> holes topo \<longrightarrow>
        (\<forall>r \<in> set (exterior polygon # interiors polygon). 2 \<le> length r))"
proof -
  have "butlast r \<noteq> [] \<longleftrightarrow> 2 \<le> length r" for r :: "coord list"
    by (cases r rule: rev_cases) (auto simp: Suc_le_eq)
  then show ?thesis
    by (auto simp: all_ok_def non_holes_def ok_polygon_def rings_def list_all_iff)
qed

section \<open>Degenerate rings\<close>

text \<open>
  Claim C5 says that a ring with fewer than 3 distinct coordinates left, once the closing
  duplicate is removed, makes the compilation fail with a DegenerateRing error. The code
  has no such check. The ring (0,0), (1,0), (1,0), (0,0) has two distinct coordinates, and
  the run returns an entity set with three points and three lines.
\<close>
theorem degenerate_ring_counterexample:
  "card (set (butlast [(0, 0), (1, 0), (1, 0), (0::real, 0::real)])) = 2
   \<and> topology_to_gmsh_entities
       \<lparr>flatten = [(\<lparr>exterior = [(0, 0), (1, 0), (1, 0), (0, 0)], interiors = []\<rparr>, 0)],
        holes = {}\<rparr> =
     Inr \<lparr>points =
           [\<lparr>x = 0, y = 0, z = 0, lc = 0.1, Point.tag = 1\<rparr>,
            \<lparr>x = 1, y = 0, z = 0, lc = 0.1, Point.tag = 2\<rparr>,
            \<lparr>x = 1, y = 0, z = 0, lc = 0.1, Point.tag = 3\<rparr>],
          lines =
           [\<lparr>start_tag = 1, end_tag = 2, Line.tag = 1\<rparr>,
            \<lparr>start_tag = 2, end_tag = 3, Line.tag = 2\<rparr>,
            \<lparr>start_tag = 3, end_tag = 1, Line.tag = 3\<rparr>],
          curve_loops = [\<lparr>line_tags = [1, 2, 3], CurveLoop.tag = 1\<rparr>],
          plane_surfaces = [\<lparr>curve_loop_tags = [1], PlaneSurface.tag = 1\<rparr>],
          physical_groups = [\<lparr>dim = 2, entity_tags = [1], PhysicalGroup.tag = 1\<rparr>]\<rparr>"
  by (simp add: topology_to_gmsh_entities_def bubble_to_gmsh_entities_def compile_ring_def
      upt_conv_Cons)

text \<open>
  Claim C5, amended. The compilation fails exactly when a ring of a polygon that is not a
  hole has no coordinate left once its last coordinate is removed, that is when its
  coordinate sequence has length 0 or 1. The error is then the \<^verbatim>\<open>IndexError\<close> of the
  closing line and no entity set is returned. In every other case, also when a ring has
  fewer than 3 distinct coordinates, the run returns an entity set.
\<close>
theorem compilation_fails_iff:
  "(topology_to_gmsh_entities topo = Inl IndexError \<longleftrightarrow>
      (\<exists>(polygon, level) \<in> set (flatten topo). level \<notin> holes topo \<and>
         (\<exists>r \<in> set (exterior polygon # interiors polygon). length r \<le> 1)))
   \<and> ((\<exists>ents. topology_to_gmsh_entities topo = Inr ents) \<longleftrightarrow>
      (\<forall>(polygon, level) \<in> set (flatten topo). level \<notin> holes topo \<longrightarrow>
         (\<forall>r \<in> set (exterior polygon # interiors polygon). 2 \<le> length r)))"
proof -
  have "topology_to_gmsh_entities topo = Inl IndexError \<longleftrightarrow> \<not> all_ok (non_holes topo)"
    and "(\<exists>ents. topology_to_gmsh_entities topo = Inr ents) \<longleftrightarrow> all_ok (non_holes topo)"
    by (simp_all add: topology_to_gmsh_entities_eq)
  then show ?thesis
    unfolding all_ok_iff by (fastforce simp: not_le Suc_le_eq)
qed

theorem compilation_fails_iff_witness:
  "topology_to_gmsh_entities \<lparr>flatten = [(triangle, 1), (empty_polygon, 0)], holes = {}\<rparr> =
     Inl IndexError
   \<and> (\<exists>ents. topology_to_gmsh_entities \<lparr>flatten = [(degenerate, 1), (empty_polygon, 0)],
         holes = {0}\<rparr> = Inr ents)"
  using compilation_fails_iff [of "\<lparr>flatten = [(triangle, 1), (empty_polygon, 0)], holes = {}\<rparr>"]
    compilation_fails_iff [of "\<lparr>flatten = [(degenerate, 1), (empty_polygon, 0)], holes = {0}\<rparr>"]
  by (simp add: triangle_def empty_polygon_def degenerate_def)

lemma tags_merged_groups:
  "map PhysicalGroup.tag (merged_groups pgs) = sorted_list_of_set (PhysicalGroup.tag ` set pgs)"
  by (simp add: merged_groups_def comp_def)

lemma tags_region_groups:
  "PhysicalGroup.tag ` set (region_groups fs st) = (\<lambda>(polygon, level). level + 1) ` set fs"
  by (induction fs st rule: region_groups.induct) simp_all

lemma non_holes_filtered:
  "non_holes \<lparr>flatten = non_holes topo, holes = {}\<rparr> = non_holes topo"
  by (simp add: non_holes_def)

section \<open>Holes\<close>

text \<open>
  Claim C4. The pairs whose level is a hole level leave no trace in the output: the
  result of \<^verbatim>\<open>topology_to_gmsh_entities\<close> is the result for the topology from which these
  pairs are removed (and which then needs no hole level). When the run returns, there
  is one plane surface per pair that is not a hole, and no physical group has the tag
  \<open>level + 1\<close> of a hole level.
\<close>
theorem holes_filtered:
  "topology_to_gmsh_entities topo =
     topology_to_gmsh_entities
       \<lparr>flatten = filter (\<lambda>(polygon, level). level \<notin> holes topo) (flatten topo),
        holes = {}\<rparr>
   \<and> (topology_to_gmsh_entities topo = Inr ents \<longrightarrow>
        length (plane_surfaces ents) =
          length (filter (\<lambda>(polygon, level). level \<notin> holes topo) (flatten topo))
        \<and> (\<forall>g \<in> set (physical_groups ents). PhysicalGroup.tag g - 1 \<notin> holes topo))"
proof (intro conjI impI)
  show "topology_to_gmsh_entities topo =
     topology_to_gmsh_entities
       \<lparr>flatten = filter (\<lambda>(polygon, level). level \<notin> holes topo) (flatten topo),
        holes = {}\<rparr>"
    using non_holes_filtered [of topo]
    by (simp add: topology_to_gmsh_entities_eq) (simp add: non_holes_def)
next
  assume "topology_to_gmsh_entities topo = Inr ents"
  then have ents: "ents = flattened (non_holes topo)"
    by (auto simp: topology_to_gmsh_entities_eq split: if_splits)
  have "length (map PlaneSurface.tag (plane_surfaces ents)) = length (non_holes topo)"
    unfolding ents flattened_def by (simp add: tags_regions_surfaces del: length_map)
  then show "length (plane_surfaces ents) =
          length (filter (\<lambda>(polygon, level). level \<notin> holes topo) (flatten topo))"
    by (simp add: non_holes_def)
  have tg: "set (map PhysicalGroup.tag (physical_groups ents))
      = (\<lambda>(polygon, level). level + 1) ` set (non_holes topo)"
    unfolding ents flattened_def
    by (simp add: tags_merged_groups tags_region_groups del: set_map)
  show "\<forall>g \<in> set (physical_groups ents). PhysicalGroup.tag g - 1 \<notin> holes topo"
  proof
    fix g
    assume "g \<in> set (physical_groups ents)"
    then have "PhysicalGroup.tag g \<in> set (map PhysicalGroup.tag (physical_groups ents))"
      by simp
    then obtain polygon level where "(polygon, level) \<in> set (non_holes topo)"
      and "PhysicalGroup.tag g = level + 1"
      unfolding tg by auto
    then show "PhysicalGroup.tag g - 1 \<notin> holes topo"
      by (simp add: non_holes_def)
  qed
qed

theorem holes_filtered_witness:
  "topology_to_gmsh_entities example_topology = Inr example_entities
   \<and> topology_to_gmsh_entities
       \<lparr>flatten = [(triangle, 1), (triangle, 0), (triangle, 1)], holes = {}\<rparr> =
     Inr example_entities
   \<and> length (plane_surfaces example_entities) = 3
   \<and> map PhysicalGroup.tag (physical_groups example_entities) = [1, 2]"
  using example_compiles holes_filtered [of example_topology example_entities]
  by (simp add: example_topology_def) (simp add: example_entities_def)

section \<open>One region\<close>

text \<open>
  Claim C8. For a polygon with an exterior ring and \<open>k \<ge> 0\<close> interior rings,
  \<^verbatim>\<open>bubble_to_gmsh_entities\<close> returns \<open>k + 1\<close> curve loops, one per ring in the order
  exterior ring, first interior ring, second interior ring, ..., with the tags
  \<open>ct, ct + 1, ..., ct + k\<close> from the curve loop counter \<open>ct\<close>, and exactly one plane
  surface, whose curve loop tags are these tags in this order: the exterior loop first.
  The square with one square hole at level 0 compiles to 8 points, 8 lines, the curve
  loops 1 and 2, one plane surface with the loops 1, 2 and one physical group with the
  entity 1.
\<close>
theorem region_plane_surface:
  "(bubble_to_gmsh_entities polygon level pt lt ct st = Inr (ents, counters) \<longrightarrow>
      curve_loops ents = rings_loops (exterior polygon # interiors polygon) lt ct
      \<and> length (curve_loops ents) = 1 + length (interiors polygon)
      \<and> map CurveLoop.tag (curve_loops ents) = [ct..ct + int (length (interiors polygon))]
      \<and> plane_surfaces ents =
          [\<lparr>curve_loop_tags = [ct..ct + int (length (interiors polygon))],
            PlaneSurface.tag = st\<rparr>]
      \<and> physical_groups ents =
          [\<lparr>dim = 2, entity_tags = [st], PhysicalGroup.tag = level + 1\<rparr>])
   \<and> topology_to_gmsh_entities
       \<lparr>flatten =
          [(\<lparr>exterior = [(0, 0), (1, 0), (1, 1), (0, 1), (0, 0)],
             interiors = [[(0.25, 0.25), (0.75, 0.25), (0.75, 0.75), (0.25, 0.75),
                           (0.25, 0.25)]]\<rparr>, 0)],
        holes = {}\<rparr> =
     Inr \<lparr>points =
           [\<lparr>x = 0, y = 0, z = 0, lc = 0.1, Point.tag = 1\<rparr>,
            \<lparr>x = 1, y = 0, z = 0, lc = 0.1, Point.tag = 2\<rparr>,
            \<lparr>x = 1, y = 1, z = 0, lc = 0.1, Point.tag = 3\<rparr>,
            \<lparr>x = 0, y = 1, z = 0, lc = 0.1, Point.tag = 4\<rparr>,
            \<lparr>x = 0.25, y = 0.25, z = 0, lc = 0.1, Point.tag = 5\<rparr>,
            \<lparr>x = 0.75, y = 0.25, z = 0, lc = 0.1, Point.tag = 6\<rparr>,
            \<lparr>x = 0.75, y = 0.75, z = 0, lc = 0.1, Point.tag = 7\<rparr>,
            \<lparr>x = 0.25, y = 0.75, z = 0, lc = 0.1, Point.tag = 8\<rparr>],
          lines =
           [\<lparr>start_tag = 1, end_tag = 2, Line.tag = 1\<rparr>,
            \<lparr>start_tag = 2, end_tag = 3, Line.tag = 2\<rparr>,
            \<lparr>start_tag = 3, end_tag = 4, Line.tag = 3\<rparr>,
            \<lparr>start_tag = 4, end_tag = 1, Line.tag = 4\<rparr>,
            \<lparr>start_tag = 5, end_tag = 6, Line.tag = 5\<rparr>,
            \<lparr>start_tag = 6, end_tag = 7, Line.tag = 6\<rparr>,
            \<lparr>start_tag = 7, end_tag = 8, Line.tag = 7\<rparr>,
            \<lparr>start_tag = 8, end_tag = 5, Line.tag = 8\<rparr>],
          curve_loops =
           [\<lparr>line_tags = [1, 2, 3, 4], CurveLoop.tag = 1\<rparr>,
            \<lparr>line_tags = [5, 6, 7, 8], CurveLoop.tag = 2\<rparr>],
          plane_surfaces = [\<lparr>curve_loop_tags = [1, 2], PlaneSurface.tag = 1\<rparr>],
          physical_groups = [\<lparr>dim = 2, entity_tags = [1], PhysicalGroup.tag = 1\<rparr>]\<rparr>"
proof (intro conjI impI)
  assume "bubble_to_gmsh_entities polygon level pt lt ct st = Inr (ents, counters)"
  then have ents: "ents = bubble_entities (rings polygon) level pt lt ct st"
    by (auto simp: bubble_to_gmsh_entities_eq split: if_splits)
  have tg: "map CurveLoop.tag (rings_loops (rings polygon) lt ct) =
      [ct..ct + int (length (interiors polygon))]"
    unfolding tags_rings_loops tags_from_upto by (simp add: rings_def)
  have up: "tags_from ct (length (rings polygon)) = [ct..ct + int (length (interiors polygon))]"
    unfolding tags_from_upto by (simp add: rings_def)
  have cl: "curve_loops ents = rings_loops (rings polygon) lt ct"
    by (simp add: ents bubble_entities_def)
  show "curve_loops ents = rings_loops (exterior polygon # interiors polygon) lt ct"
    unfolding cl by (simp add: rings_def)
  have "length (map CurveLoop.tag (rings_loops (rings polygon) lt ct)) = length (rings polygon)"
    unfolding tags_rings_loops by simp
  then show "length (curve_loops ents) = 1 + length (interiors polygon)"
    unfolding cl by (simp add: rings_def)
  show "map CurveLoop.tag (curve_loops ents) = [ct..ct + int (length (interiors polygon))]"
    unfolding cl by (rule tg)
  have "plane_surfaces ents =
      [\<lparr>curve_loop_tags = tags_from ct (length (rings polygon)), PlaneSurface.tag = st\<rparr>]"
    by (simp add: ents bubble_entities_def)
  then show "plane_surfaces ents =
          [\<lparr>curve_loop_tags = [ct..ct + int (length (interiors polygon))],
            PlaneSurface.tag = st\<rparr>]"
    unfolding up .
  show "physical_groups ents =
          [\<lparr>dim = 2, entity_tags = [st], PhysicalGroup.tag = level + 1\<rparr>]"
    by (simp add: ents bubble_entities_def)
next
  show "topology_to_gmsh_entities
       \<lparr>flatten =
          [(\<lparr>exterior = [(0, 0), (1, 0), (1, 1), (0, 1), (0, 0)],
             interiors = [[(0.25, 0.25), (0.75, 0.25), (0.75, 0.75), (0.25, 0.75),
                           (0.25, 0.25)]]\<rparr>, 0)],
        holes = {}\<rparr> =
     Inr \<lparr>points =
           [\<lparr>x = 0, y = 0, z = 0, lc = 0.1, Point.tag = 1\<rparr>,
            \<lparr>x = 1, y = 0, z = 0, lc = 0.1, Point.tag = 2\<rparr>,
            \<lparr>x = 1, y = 1, z = 0, lc = 0.1, Point.tag = 3\<rparr>,
            \<lparr>x = 0, y = 1, z = 0, lc = 0.1, Point.tag = 4\<rparr>,
            \<lparr>x = 0.25, y = 0.25, z = 0, lc = 0.1, Point.tag = 5\<rparr>,
            \<lparr>x = 0.75, y = 0.25, z = 0, lc = 0.1, Point.tag = 6\<rparr>,
            \<lparr>x = 0.75, y = 0.75, z = 0, lc = 0.1, Point.tag = 7\<rparr>,
            \<lparr>x = 0.25, y = 0.75, z = 0, lc = 0.1, Point.tag = 8\<rparr>],
          lines =
           [\<lparr>start_tag = 1, end_tag = 2, Line.tag = 1\<rparr>,
            \<lparr>start_tag = 2, end_tag = 3, Line.tag = 2\<rparr>,
            \<lparr>start_tag = 3, end_tag = 4, Line.tag = 3\<rparr>,
            \<lparr>start_tag = 4, end_tag = 1, Line.tag = 4\<rparr>,
            \<lparr>start_tag = 5, end_tag = 6, Line.tag = 5\<rparr>,
            \<lparr>start_tag = 6, end_tag = 7, Line.tag = 6\<rparr>,
            \<lparr>start_tag = 7, end_tag = 8, Line.tag = 7\<rparr>,
            \<lparr>start_tag = 8, end_tag = 5, Line.tag = 8\<rparr>],
          curve_loops =
           [\<lparr>line_tags = [1, 2, 3, 4], CurveLoop.tag = 1\<rparr>,
            \<lparr>line_tags = [5, 6, 7, 8], CurveLoop.tag = 2\<rparr>],
          plane_surfaces = [\<lparr>curve_loop_tags = [1, 2], PlaneSurface.tag = 1\<rparr>],
          physical_groups = [\<lparr>dim = 2, entity_tags = [1], PhysicalGroup.tag = 1\<rparr>]\<rparr>"
    by (simp add: topology_to_gmsh_entities_def bubble_to_gmsh_entities_def compile_ring_def
        upt_conv_Cons)
qed

theorem region_plane_surface_witness:
  "bubble_to_gmsh_entities square_with_hole 0 1 1 1 1 =
     Inr (square_with_hole_entities, 9, 9, 3, 2)
   \<and> length (curve_loops square_with_hole_entities) = 2
   \<and> plane_surfaces square_with_hole_entities =
        [\<lparr>curve_loop_tags = [1, 2], PlaneSurface.tag = 1\<rparr>]"
proof -
  have a: "length (curve_loops square_with_hole_entities) = 2"
    and b: "plane_surfaces square_with_hole_entities =
        [\<lparr>curve_loop_tags = [1, 2], PlaneSurface.tag = 1\<rparr>]"
    by (simp_all add: square_with_hole_entities_def)
  show ?thesis
    using square_with_hole_compiles a b
      region_plane_surface [of square_with_hole 0 1 1 1 1 square_with_hole_entities
        "(9, 9, 3, 2)"]
    by blast
qed

lemma surfaces_of_groups:
  "map (\<lambda>s. hd (entity_tags s)) (filter (\<lambda>g. PhysicalGroup.tag g = k) (region_groups fs st)) =
     map fst (filter (\<lambda>(t, (polygon, level)). level + 1 = k) (zip (tags_from st (length fs)) fs))"
  by (induction fs st rule: region_groups.induct) (simp_all add: tags_from_Suc)

lemma zip_surface_tags:
  fixes fs :: "(Polygon \<times> int) list"
  shows "map (\<lambda>(s, r). PlaneSurface.tag s) (filter (\<lambda>(s, (polygon, l)). l = level) (zip ss fs)) =
     map fst (filter (\<lambda>(t, (polygon, l)). l + 1 = level + 1) (zip (map PlaneSurface.tag ss) fs))"
proof (induction ss arbitrary: fs)
  case Nil
  show ?case by simp
next
  case (Cons s ss)
  show ?case
  proof (cases fs)
    case Nil
    then show ?thesis by simp
  next
    case (Cons f fs')
    obtain polygon l where f: "f = (polygon, l)" by (cases f)
    show ?thesis unfolding Cons f using Cons.IH [of fs'] by simp
  qed
qed

section \<open>Physical groups\<close>

text \<open>
  Claim C3. Let the run return. The physical groups of the output have pairwise distinct
  tags, so no two records share a tag. Plane surface number \<open>i\<close> of the output belongs to
  the \<open>i\<close>-th pair that is not a hole. For every such pair, with level \<open>level\<close>, the output
  contains the physical group with the tag \<open>level + 1\<close>, dimension 2, and the tags of the
  plane surfaces of all the pairs of this level (in input order) as its entity tags.
\<close>
theorem groups_merged:
  assumes "topology_to_gmsh_entities topo = Inr ents"
    and "(polygon, level) \<in> set (flatten topo)" and "level \<notin> holes topo"
  shows "distinct (map PhysicalGroup.tag (physical_groups ents))
       \<and> length (plane_surfaces ents) = length (non_holes topo)
       \<and> \<lparr>dim = 2,
          entity_tags =
            map (\<lambda>(s, r). PlaneSurface.tag s)
              (filter (\<lambda>(s, (polygon, l)). l = level)
                 (zip (plane_surfaces ents) (non_holes topo))),
          PhysicalGroup.tag = level + 1\<rparr> \<in> set (physical_groups ents)"
proof -
  let ?fs = "non_holes topo"
  from assms(1) have ents: "ents = flattened ?fs"
    by (auto simp: topology_to_gmsh_entities_eq split: if_splits)
  have tg: "map PlaneSurface.tag (plane_surfaces ents) = tags_from 1 (length ?fs)"
    unfolding ents flattened_def by (simp add: tags_regions_surfaces)
  have pg: "physical_groups ents = merged_groups (region_groups ?fs 1)"
    unfolding ents flattened_def by simp
  have d: "distinct (map PhysicalGroup.tag (physical_groups ents))"
    unfolding pg tags_merged_groups by simp
  have "length (map PlaneSurface.tag (plane_surfaces ents)) = length ?fs"
    unfolding tg by simp
  then have len: "length (plane_surfaces ents) = length ?fs" by simp
  have "(polygon, level) \<in> set ?fs" using assms(2,3) by (simp add: non_holes_def)
  then have "level + 1 \<in> PhysicalGroup.tag ` set (region_groups ?fs 1)"
    unfolding tags_region_groups by force
  then have "level + 1 \<in> set (sorted_list_of_set (PhysicalGroup.tag ` set (region_groups ?fs 1)))"
    by simp
  then have "\<lparr>dim = 2,
       entity_tags = map (\<lambda>s. hd (entity_tags s))
          (filter (\<lambda>g. PhysicalGroup.tag g = level + 1) (region_groups ?fs 1)),
       PhysicalGroup.tag = level + 1\<rparr> \<in> set (physical_groups ents)"
    unfolding pg merged_groups_def by (simp only: set_map) (rule imageI)
  then have "\<lparr>dim = 2,
          entity_tags =
            map (\<lambda>(s, r). PlaneSurface.tag s)
              (filter (\<lambda>(s, (polygon, l)). l = level) (zip (plane_surfaces ents) ?fs)),
          PhysicalGroup.tag = level + 1\<rparr> \<in> set (physical_groups ents)"
    unfolding surfaces_of_groups zip_surface_tags tg .
  with d len show ?thesis by blast
qed

theorem groups_merged_witness:
  "topology_to_gmsh_entities example_topology = Inr example_entities
   \<and> (triangle, 1) \<in> set (flatten example_topology) \<and> 1 \<notin> holes example_topology
   \<and> physical_groups example_entities =
        [\<lparr>dim = 2, entity_tags = [2], PhysicalGroup.tag = 1\<rparr>,
         \<lparr>dim = 2, entity_tags = [1, 3], PhysicalGroup.tag = 2\<rparr>]
   \<and> map (\<lambda>(s, r). PlaneSurface.tag s)
        (filter (\<lambda>(s, (polygon, l)). l = 1)
           (zip (plane_surfaces example_entities) (non_holes example_topology))) = [1, 3]"
proof -
  have h2: "(triangle, 1) \<in> set (flatten example_topology)"
    and h3: "1 \<notin> holes example_topology"
    by (simp_all add: example_topology_def)
  have a: "physical_groups example_entities =
        [\<lparr>dim = 2, entity_tags = [2], PhysicalGroup.tag = 1\<rparr>,
         \<lparr>dim = 2, entity_tags = [1, 3], PhysicalGroup.tag = 2\<rparr>]"
    by (simp add: example_entities_def)
  have b: "map (\<lambda>(s, r). PlaneSurface.tag s)
        (filter (\<lambda>(s, (polygon, l)). l = 1)
           (zip (plane_surfaces example_entities) (non_holes example_topology))) = [1, 3]"
    by (simp add: example_entities_def example_topology_def non_holes_def)
  show ?thesis
    using example_compiles h2 h3 a b groups_merged [OF example_compiles h2 h3] by blast
qed

lemma flattened_same_level:
  "flattened [(P, 1), (Q, 1)] =
     \<lparr>points = rings_points (rings P) 1
               @ rings_points (rings Q) (1 + int (rings_size (rings P))),
      lines = rings_lines (rings P) 1 1
               @ rings_lines (rings Q) (1 + int (rings_size (rings P)))
                   (1 + int (rings_size (rings P))),
      curve_loops = rings_loops (rings P) 1 1
               @ rings_loops (rings Q) (1 + int (rings_size (rings P)))
                   (1 + int (length (rings P))),
      plane_surfaces =
        [\<lparr>curve_loop_tags = [1..1 + int (length (interiors P))], PlaneSurface.tag = 1\<rparr>,
         \<lparr>curve_loop_tags =
            [2 + int (length (interiors P))..
             2 + int (length (interiors P)) + int (length (interiors Q))],
          PlaneSurface.tag = 2\<rparr>],
      physical_groups = [\<lparr>dim = 2, entity_tags = [1, 2], PhysicalGroup.tag = 2\<rparr>]\<rparr>"
proof -
  have a: "tags_from 1 (length (rings P)) = [1..1 + int (length (interiors P))]"
    unfolding tags_from_upto by (simp add: rings_def)
  have b: "tags_from (1 + int (length (rings P))) (length (rings Q)) =
      [2 + int (length (interiors P))..
       2 + int (length (interiors P)) + int (length (interiors Q))]"
    unfolding tags_from_upto by (simp add: rings_def add.assoc)
  have c: "merged_groups (region_groups [(P, 1), (Q, 1)] 1) =
      [\<lparr>dim = 2, entity_tags = [1, 2], PhysicalGroup.tag = 2\<rparr>]"
    by (simp add: merged_groups_def)
  show ?thesis
    unfolding flattened_def c by (simp add: bubble_entities_def a b)
qed

section \<open>Two regions of one level\<close>

text \<open>
  Claim C6. Let \<open>P1\<close> and \<open>P2\<close> be polygons that compile (every ring keeps a coordinate
  once its last one is removed) and let level 1 be no hole level. Compiling
  \<open>[(P1, 1), (P2, 1)]\<close> gives the plane surface 1 for \<open>P1\<close>, the plane surface 2 for \<open>P2\<close>
  and exactly one physical group; it has the tag 2 and the entity tags \<open>[1, 2]\<close>.
  Compiling \<open>[(P2, 1), (P1, 1)]\<close> gives the plane surface 1 for \<open>P2\<close>, the plane surface
  2 for \<open>P1\<close> and again exactly one physical group with the tag 2, whose entity tags are
  the tags of the two plane surfaces: the same set.
\<close>
theorem same_level_two_regions:
  assumes "\<forall>r \<in> set (exterior P1 # interiors P1). 2 \<le> length r"
    and "\<forall>r \<in> set (exterior P2 # interiors P2). 2 \<le> length r"
    and "1 \<notin> hs"
  shows "\<exists>e1 e2.
           topology_to_gmsh_entities \<lparr>flatten = [(P1, 1), (P2, 1)], holes = hs\<rparr> = Inr e1
         \<and> topology_to_gmsh_entities \<lparr>flatten = [(P2, 1), (P1, 1)], holes = hs\<rparr> = Inr e2
         \<and> plane_surfaces e1 =
             [\<lparr>curve_loop_tags = [1..1 + int (length (interiors P1))], PlaneSurface.tag = 1\<rparr>,
              \<lparr>curve_loop_tags =
                 [2 + int (length (interiors P1))..
                  2 + int (length (interiors P1)) + int (length (interiors P2))],
               PlaneSurface.tag = 2\<rparr>]
         \<and> physical_groups e1 = [\<lparr>dim = 2, entity_tags = [1, 2], PhysicalGroup.tag = 2\<rparr>]
         \<and> plane_surfaces e2 =
             [\<lparr>curve_loop_tags = [1..1 + int (length (interiors P2))], PlaneSurface.tag = 1\<rparr>,
              \<lparr>curve_loop_tags =
                 [2 + int (length (interiors P2))..
                  2 + int (length (interiors P2)) + int (length (interiors P1))],
               PlaneSurface.tag = 2\<rparr>]
         \<and> physical_groups e2 = [\<lparr>dim = 2, entity_tags = [1, 2], PhysicalGroup.tag = 2\<rparr>]
         \<and> set (entity_tags (hd (physical_groups e2))) =
             set (entity_tags (hd (physical_groups e1)))"
proof -
  let ?t1 = "\<lparr>flatten = [(P1, 1), (P2, 1)], holes = hs\<rparr>"
  let ?t2 = "\<lparr>flatten = [(P2, 1), (P1, 1)], holes = hs\<rparr>"
  have n1: "non_holes ?t1 = [(P1, 1), (P2, 1)]" and n2: "non_holes ?t2 = [(P2, 1), (P1, 1)]"
    using assms(3) by (simp_all add: non_holes_def)
  have ok1: "all_ok (non_holes ?t1)" and ok2: "all_ok (non_holes ?t2)"
    unfolding all_ok_iff using assms by simp_all
  have r1: "topology_to_gmsh_entities ?t1 = Inr (flattened [(P1, 1), (P2, 1)])"
    using ok1 by (simp add: topology_to_gmsh_entities_eq n1)
  have r2: "topology_to_gmsh_entities ?t2 = Inr (flattened [(P2, 1), (P1, 1)])"
    using ok2 by (simp add: topology_to_gmsh_entities_eq n2)
  show ?thesis
    unfolding r1 r2 by (simp add: flattened_same_level)
qed

theorem same_level_two_regions_witness:
  "list_all (\<lambda>r. 2 \<le> length r) (exterior triangle # interiors triangle)
   \<and> list_all (\<lambda>r. 2 \<le> length r) (exterior square_with_hole # interiors square_with_hole)
   \<and> 1 \<notin> {5::int}
   \<and> (\<exists>e1. topology_to_gmsh_entities
          \<lparr>flatten = [(triangle, 1), (square_with_hole, 1)], holes = {5}\<rparr> = Inr e1
        \<and> physical_groups e1 = [\<lparr>dim = 2, entity_tags = [1, 2], PhysicalGroup.tag = 2\<rparr>])
   \<and> (\<exists>e2. topology_to_gmsh_entities
          \<lparr>flatten = [(square_with_hole, 1), (triangle, 1)], holes = {5}\<rparr> = Inr e2
        \<and> physical_groups e2 = [\<lparr>dim = 2, entity_tags = [1, 2], PhysicalGroup.tag = 2\<rparr>])"
proof -
  have l1: "list_all (\<lambda>r. 2 \<le> length r) (exterior triangle # interiors triangle)"
    by (simp add: triangle_def)
  have l2: "list_all (\<lambda>r. 2 \<le> length r)
      (exterior square_with_hole # interiors square_with_hole)"
    by (simp add: square_with_hole_def square_ring_def inner_ring_def)
  have h1: "\<forall>r \<in> set (exterior triangle # interiors triangle). 2 \<le> length r"
    using l1 unfolding list_all_iff .
  have h2: "\<forall>r \<in> set (exterior square_with_hole # interiors square_with_hole). 2 \<le> length r"
    using l2 unfolding list_all_iff .
  have h3: "1 \<notin> {5::int}" by simp
  show ?thesis
    using l1 l2 h3 same_level_two_regions [OF h1 h2 h3] by blast
qed

end
